theory Spec2Isabelle
  imports Main "HOL-Library.Word"
begin

text \<open>
  A shallow embedding of the two headers of the Wine host of yabridge,
  \<open>src/wine-host/utils.h\<close> and
  \<open>src/common/serialization/vst3/component-handler/unit-handler-2.h\<close>: the self-rescheduling
  event loop of \<open>PluginContext\<close>, the serialization of \<open>YaUnitHandler2::ConstructArgs\<close>,
  and the ownership of \<open>Win32Thread\<close> and \<open>Win32Timer\<close>. The definitions come first, then
  the lemmas about them, then one theorem for each of the claims C1 to C10.
\<close>

section \<open>The event loop of \<open>PluginContext\<close> (src/wine-host/utils.h)\<close>

subsection \<open>Time\<close>

text \<open>
  \<open>std::chrono::steady_clock\<close> counts nanoseconds in a signed 64 bit integer. A time point
  is modelled as an unbounded \<open>int\<close> of nanoseconds: the counter would need 292 years of
  uptime to wrap. A duration given in milliseconds is converted to the clock's period
  when it is added to a time point.
\<close>

type_synonym time_point = int

definition ns_of_ms :: "int \<Rightarrow> int" where
  "ns_of_ms n = n * 1000000"

text \<open>
  \<^verbatim>\<open>constexpr std::chrono::duration event_loop_interval = std::chrono::milliseconds(1000) / 30;\<close>
  The constant is a count of milliseconds; dividing a duration by an integer divides its
  integer count.
\<close>

definition event_loop_interval :: int where
  "event_loop_interval = 1000 div 30"

subsection \<open>The handler and the timer's completion codes\<close>

text \<open>
  The handler \<open>F handler\<close> is code of the caller. What the scheduler can observe of one
  invocation is how long it ran and whether \<open>stop()\<close> was called on the context while it
  ran. A handler is a function from the time it is started at to these two observations,
  so it may behave differently at every tick.
\<close>

record handler_effect =
  elapsed :: nat
  calls_stop :: bool

type_synonym handler = "time_point \<Rightarrow> handler_effect"

text \<open>
  \<open>boost::system::error_code\<close>, as far as a timer wait completes with it: success when
  the timer expired, \<open>operation_aborted\<close> when the wait was cancelled.
\<close>

datatype error_code = success | operation_aborted

fun failed :: "error_code \<Rightarrow> bool" where
  "failed success = False"
| "failed operation_aborted = True"

subsection \<open>State\<close>

text \<open>
  What the code does is recorded in a trace: every store to \<open>event_loop_active\<close>, every
  invocation of the handler (with its start time and its duration), every
  \<open>events_timer.expires_at(t)\<close> and every \<open>events_timer.async_wait(...)\<close>.
\<close>

datatype event =
    StoreActive bool
  | HandlerRun time_point nat
  | ExpiresAt time_point
  | AsyncWait

text \<open>
  The members of \<open>PluginContext\<close>, with the parts of \<open>boost::asio\<close> they stand for:
  \<^item> \<open>event_loop_active\<close>: the \<open>std::atomic_bool\<close>;
  \<^item> \<open>events_timer_expiry\<close>: \<open>events_timer.expiry()\<close>;
  \<^item> \<open>events_timer_waits\<close>: the asynchronous waits outstanding on \<open>events_timer\<close>, each
    the lambda of \<open>async_handle_events\<close> with the handler it captured by value;
  \<^item> \<open>context_ready\<close>: completion handlers queued in \<open>context\<close>, each with the error code
    it will be invoked with;
  \<^item> \<open>context_stopped\<close>: \<open>context.stopped()\<close>;
  \<^item> \<open>steady_clock_now\<close>: \<open>std::chrono::steady_clock::now()\<close>.
\<close>

record plugin_context =
  event_loop_active :: bool
  events_timer_expiry :: time_point
  events_timer_waits :: "handler list"
  context_ready :: "(handler \<times> error_code) list"
  context_stopped :: bool
  steady_clock_now :: time_point
  trace :: "event list"

subsection \<open>The timer operations of \<open>boost::asio::steady_timer\<close>\<close>

text \<open>
  \<open>expires_at(t)\<close> sets the expiry time. Any pending asynchronous wait is cancelled: its
  handler is queued for invocation with \<open>operation_aborted\<close>.
\<close>

definition expires_at :: "time_point \<Rightarrow> plugin_context \<Rightarrow> plugin_context" where
  "expires_at t s =
     s\<lparr>events_timer_expiry := t,
       context_ready := context_ready s @ map (\<lambda>h. (h, operation_aborted)) (events_timer_waits s),
       events_timer_waits := [],
       trace := trace s @ [ExpiresAt t]\<rparr>"

definition async_wait :: "handler \<Rightarrow> plugin_context \<Rightarrow> plugin_context" where
  "async_wait h s =
     s\<lparr>events_timer_waits := events_timer_waits s @ [h],
       trace := trace s @ [AsyncWait]\<rparr>"

subsection \<open>\<open>PluginContext::async_handle_events\<close>\<close>

text \<open>
  \<^verbatim>\<open>
  events_timer.expires_at(std::max(
      events_timer.expiry() + event_loop_interval,
      std::chrono::steady_clock::now() + std::chrono::milliseconds(5)));
  events_timer.async_wait([&, handler](const boost::system::error_code& error) { ... });
  \<close>
\<close>

definition async_handle_events :: "handler \<Rightarrow> plugin_context \<Rightarrow> plugin_context" where
  "async_handle_events h s =
     async_wait h
       (expires_at
          (max (events_timer_expiry s + ns_of_ms event_loop_interval)
               (steady_clock_now s + ns_of_ms 5))
          s)"

definition store_event_loop_active :: "bool \<Rightarrow> plugin_context \<Rightarrow> plugin_context" where
  "store_event_loop_active b s =
     s\<lparr>event_loop_active := b, trace := trace s @ [StoreActive b]\<rparr>"

text \<open>
  \<open>handler()\<close>: the clock advances by the time the handler takes, and the context is
  stopped if the handler's run included a call of \<open>stop()\<close>.
\<close>

definition call_handler :: "handler \<Rightarrow> plugin_context \<Rightarrow> plugin_context" where
  "call_handler h s =
     s\<lparr>steady_clock_now := steady_clock_now s + int (elapsed (h (steady_clock_now s))),
       context_stopped := (context_stopped s \<or> calls_stop (h (steady_clock_now s))),
       trace := trace s @ [HandlerRun (steady_clock_now s) (elapsed (h (steady_clock_now s)))]\<rparr>"

text \<open>
  The lambda given to \<open>async_wait\<close>:
  \<^verbatim>\<open>
  if (error.failed()) { return; }
  event_loop_active = true;
  handler();
  event_loop_active = false;
  async_handle_events(handler);
  \<close>
\<close>

definition wait_callback :: "handler \<Rightarrow> error_code \<Rightarrow> plugin_context \<Rightarrow> plugin_context" where
  "wait_callback h error s =
     (if failed error then s
      else async_handle_events h
             (store_event_loop_active False
                (call_handler h
                   (store_event_loop_active True s))))"

subsection \<open>The reactor\<close>

text \<open>
  One iteration of \<open>boost::asio::io_context::run()\<close> on the thread that runs the context,
  as far as \<open>events_timer\<close> is concerned. A stopped context dispatches nothing. Otherwise
  the first queued completion handler is invoked with its error code. With nothing queued
  and a wait outstanding, the thread sleeps until the timer expires: the clock moves to the
  expiry time (or stays, if that has passed) plus the latency \<open>lag\<close> of this wake-up, and
  the waits complete with success. With no work left the iteration does nothing, which is
  where \<open>run()\<close> returns.
\<close>

definition io_context_run_one :: "nat \<Rightarrow> plugin_context \<Rightarrow> plugin_context" where
  "io_context_run_one lag s =
     (if context_stopped s then s
      else case context_ready s of
             (h, error) # rest \<Rightarrow> wait_callback h error (s\<lparr>context_ready := rest\<rparr>)
           | [] \<Rightarrow>
               (if events_timer_waits s = [] then s
                else s\<lparr>steady_clock_now :=
                         max (steady_clock_now s) (events_timer_expiry s) + int lag,
                       context_ready := map (\<lambda>h. (h, success)) (events_timer_waits s),
                       events_timer_waits := []\<rparr>))"

text \<open>
  A run of the reactor is a sequence of iterations, one per element of \<open>lags\<close>. Every
  finite prefix of an execution of \<open>run()\<close> is such a run.
\<close>

definition io_context_run :: "nat list \<Rightarrow> plugin_context \<Rightarrow> plugin_context" where
  "io_context_run lags s = fold io_context_run_one lags s"

text \<open>The reactor has nothing left to do: \<open>run()\<close> returns.\<close>

definition out_of_work :: "plugin_context \<Rightarrow> bool" where
  "out_of_work s = (events_timer_waits s = [] \<and> context_ready s = [])"

text \<open>
  A context on which no wait is outstanding, no completion is queued, the message loop is
  not being handled and nothing has been recorded yet: the state before the first call of
  \<open>async_handle_events\<close>.
\<close>

definition idle :: "plugin_context \<Rightarrow> bool" where
  "idle s =
     (events_timer_waits s = [] \<and> context_ready s = [] \<and> \<not> event_loop_active s \<and> trace s = [])"

subsection \<open>Reading a trace\<close>

text \<open>The expiry times given to the timer, and the times the handler was started at.\<close>

fun scheduled_times :: "event list \<Rightarrow> time_point list" where
  "scheduled_times [] = []"
| "scheduled_times (ExpiresAt t # es) = t # scheduled_times es"
| "scheduled_times (e # es) = scheduled_times es"

fun handler_starts :: "event list \<Rightarrow> time_point list" where
  "handler_starts [] = []"
| "handler_starts (HandlerRun t d # es) = t # handler_starts es"
| "handler_starts (e # es) = handler_starts es"

text \<open>Consecutive elements of a list of time points are at least \<open>gap\<close> apart.\<close>

fun spaced :: "int \<Rightarrow> time_point list \<Rightarrow> bool" where
  "spaced gap (a # b # ts) = (a + gap \<le> b \<and> spaced gap (b # ts))"
| "spaced gap ts = True"

text \<open>
  A trace that is a sequence of whole ticks: the flag is stored true, the handler runs, the
  flag is stored false, and only then is the timer given its next expiry and the next wait
  registered. Nothing else is in such a trace: no store to the flag and no run of the
  handler outside this pattern.
\<close>

fun tick_blocks :: "event list \<Rightarrow> bool" where
  "tick_blocks [] = True"
| "tick_blocks (StoreActive True # HandlerRun t d # StoreActive False # ExpiresAt t' # AsyncWait # es) =
     tick_blocks es"
| "tick_blocks es = False"

text \<open>
  The trace of a chain of ticks started by one call of \<open>async_handle_events\<close>: the first
  expiry and the first wait, then whole ticks.
\<close>

fun chain_trace :: "event list \<Rightarrow> bool" where
  "chain_trace (ExpiresAt t # AsyncWait # es) = tick_blocks es"
| "chain_trace es = False"

subsection \<open>\<open>PluginContext::stop\<close> and \<open>PluginContext::run\<close>\<close>

text \<open>
  Modelled from the spec: \<open>PluginContext::stop()\<close> is declared in utils.h, its body is not
  under src/. The spec: "\<open>stop()\<close> cancels all pending and future scheduled work; it does not
  guarantee the thread inside \<open>run()\<close> returns immediately: in-flight work may still
  complete". The header: "Drop all future work from the IO context." Stopping marks the
  context stopped, and the reactor dispatches nothing on a stopped context.
\<close>

definition stop :: "plugin_context \<Rightarrow> plugin_context" where
  "stop s = s\<lparr>context_stopped := True\<rparr>"

text \<open>
  Modelled from the spec: \<open>PluginContext::run()\<close> is declared in utils.h, its body is not
  under src/. The spec: "\<open>run()\<close> starts the reactor loop; the design assumes exactly one
  thread calls \<open>run()\<close> for the lifetime of the scheduler". The header: "Run the IO
  context." A finite prefix of its execution is a run of the reactor.
\<close>

definition run :: "nat list \<Rightarrow> plugin_context \<Rightarrow> plugin_context" where
  "run lags s = io_context_run lags s"

subsection \<open>Invariants of a chain of ticks\<close>

text \<open>
  Between two iterations of the reactor: the flag is false, at most one wait of the chain
  is outstanding or queued, and the trace is a chain of whole ticks.
\<close>

definition chain_inv :: "plugin_context \<Rightarrow> bool" where
  "chain_inv s =
     (\<not> event_loop_active s
      \<and> length (events_timer_waits s) + length (context_ready s) \<le> 1
      \<and> chain_trace (trace s))"

text \<open>
  A queued completion is due; the expiry times given to the timer are an interval apart and
  the last of them is the timer's expiry; the handler's start times are five milliseconds
  apart and the last of them is five milliseconds before the timer's expiry.
\<close>

definition gap_inv :: "plugin_context \<Rightarrow> bool" where
  "gap_inv s =
     (length (events_timer_waits s) + length (context_ready s) \<le> 1
      \<and> (context_ready s = [] \<or> events_timer_expiry s \<le> steady_clock_now s)
      \<and> spaced (ns_of_ms event_loop_interval) (scheduled_times (trace s))
      \<and> (scheduled_times (trace s) = [] \<or>
           last (scheduled_times (trace s)) = events_timer_expiry s)
      \<and> spaced (ns_of_ms 5) (handler_starts (trace s))
      \<and> (handler_starts (trace s) = [] \<or>
           last (handler_starts (trace s)) + ns_of_ms 5 \<le> events_timer_expiry s))"

text \<open>
  With a handler that takes no time and a reactor that wakes up with no latency, a queued
  completion is dispatched exactly at the timer's expiry, and the handler's start times are
  an interval apart.
\<close>

definition punctual_inv :: "handler \<Rightarrow> plugin_context \<Rightarrow> bool" where
  "punctual_inv h s =
     (length (events_timer_waits s) + length (context_ready s) \<le> 1
      \<and> set (events_timer_waits s) \<subseteq> {h}
      \<and> fst ` set (context_ready s) \<subseteq> {h}
      \<and> (context_ready s = [] \<or> events_timer_expiry s = steady_clock_now s)
      \<and> (events_timer_waits s = [] \<or> steady_clock_now s \<le> events_timer_expiry s)
      \<and> spaced (ns_of_ms event_loop_interval) (handler_starts (trace s))
      \<and> (handler_starts (trace s) = [] \<or>
           last (handler_starts (trace s)) + ns_of_ms event_loop_interval
             \<le> events_timer_expiry s))"

subsection \<open>Example inputs\<close>

text \<open>
  A context one second after the clock's epoch whose timer still has its initial expiry, a
  handler that takes 100 ms (longer than the interval), one that takes no time, and one
  during whose run \<open>stop()\<close> is called.
\<close>

definition fresh_context :: plugin_context where
  "fresh_context =
     \<lparr>event_loop_active = False, events_timer_expiry = 0, events_timer_waits = [],
      context_ready = [], context_stopped = False, steady_clock_now = 1000000000,
      trace = []\<rparr>"

definition slow_handler :: handler where
  "slow_handler t = \<lparr>elapsed = 100000000, calls_stop = False\<rparr>"

definition instant_handler :: handler where
  "instant_handler t = \<lparr>elapsed = 0, calls_stop = False\<rparr>"

definition stopping_handler :: handler where
  "stopping_handler t = \<lparr>elapsed = 2000000, calls_stop = True\<rparr>"

section \<open>\<open>YaUnitHandler2\<close> (src/common/serialization/vst3/component-handler/unit-handler-2.h)\<close>

subsection \<open>\<open>ConstructArgs\<close> and its serialization\<close>

record ConstructArgs =
  supported :: bool

text \<open>
  The template parameter \<open>S\<close> of \<open>serialize\<close> is a bitsery serializer, which appends to a
  buffer of bytes, or a bitsery deserializer, which reads from one; the same function
  serves both directions.
\<close>

datatype archive = Serializer "8 word list" | Deserializer "8 word list"

datatype archive_error = DataOverflow | NotABool

text \<open>
  \<open>s.value1b(v)\<close> on a \<open>bool\<close>: the serializer writes the one byte of the object, 1 for
  true and 0 for false. The deserializer reads one byte into the object; reading past the
  end of the buffer is bitsery's \<open>DataOverflow\<close>. A byte other than 0 and 1 is no value of
  a \<open>bool\<close>; the model stops there.
\<close>

fun value1b :: "bool \<Rightarrow> archive \<Rightarrow> archive_error + (bool \<times> archive)" where
  "value1b v (Serializer buffer) = Inr (v, Serializer (buffer @ [if v then 1 else 0]))"
| "value1b v (Deserializer []) = Inl DataOverflow"
| "value1b v (Deserializer (byte # buffer)) =
     (if byte = 0 then Inr (False, Deserializer buffer)
      else if byte = 1 then Inr (True, Deserializer buffer)
      else Inl NotABool)"

text \<open>
  \<^verbatim>\<open>template <typename S> void serialize(S& s) { s.value1b(supported); }\<close>
\<close>

definition serialize :: "archive \<Rightarrow> ConstructArgs \<Rightarrow> archive_error + (ConstructArgs \<times> archive)" where
  "serialize s args =
     (case value1b (supported args) s of
        Inl e \<Rightarrow> Inl e
      | Inr (v, s') \<Rightarrow> Inr (args\<lparr>supported := v\<rparr>, s'))"

text \<open>
  The bytes a serializer with an empty buffer holds after serializing \<open>args\<close>, and the
  value a deserializer over exactly these bytes leaves in an object \<open>into\<close>.
\<close>

definition to_bytes :: "ConstructArgs \<Rightarrow> 8 word list option" where
  "to_bytes args =
     (case serialize (Serializer []) args of
        Inr (args', Serializer buffer) \<Rightarrow> Some buffer
      | _ \<Rightarrow> None)"

definition from_bytes :: "8 word list \<Rightarrow> ConstructArgs \<Rightarrow> ConstructArgs option" where
  "from_bytes buffer into =
     (case serialize (Deserializer buffer) into of
        Inr (args, Deserializer []) \<Rightarrow> Some args
      | _ \<Rightarrow> None)"

subsection \<open>The capability probe and the proxy\<close>

text \<open>
  A component answers an interface query by identifier; \<open>interfaces\<close> lists the identifiers
  it answers with success. An identifier is written as the name of its interface.
\<close>

record FUnknown =
  interfaces :: "string list"

definition IUnitHandler2_iid :: string where
  "IUnitHandler2_iid = ''IUnitHandler2''"

text \<open>
  Modelled from the spec: the constructor \<open>ConstructArgs(IPtr<FUnknown> object)\<close> is declared
  in unit-handler-2.h, its body is not under src/. The spec: "given a reference to an
  arbitrary real component, probe it for support of one specific extension interface. The
  probe performs a capability query (ask the component: do you implement interface X)";
  "capability-probe failures are recorded in CapabilityArgs.supported and never thrown".
\<close>

definition ConstructArgs_probe :: "FUnknown \<Rightarrow> ConstructArgs" where
  "ConstructArgs_probe object = \<lparr>supported = (IUnitHandler2_iid \<in> set (interfaces object))\<rparr>"

record YaUnitHandler2 =
  arguments :: ConstructArgs

text \<open>
  Modelled from the spec: the constructor \<open>YaUnitHandler2(const ConstructArgs&& args)\<close> is
  declared in unit-handler-2.h, its body is not under src/. The spec: the proxy "owns one
  CapabilityArgs value".
\<close>

definition YaUnitHandler2_construct :: "ConstructArgs \<Rightarrow> YaUnitHandler2" where
  "YaUnitHandler2_construct args = \<lparr>arguments = args\<rparr>"

text \<open>\<^verbatim>\<open>inline bool supported() const { return arguments.supported; }\<close>\<close>

definition YaUnitHandler2_supported :: "YaUnitHandler2 \<Rightarrow> bool" where
  "YaUnitHandler2_supported proxy = supported (arguments proxy)"

text \<open>
  The transport as the proxy sees it: a counter of round-trips, whether a round-trip can
  complete, and what the remote component returns.
\<close>

datatype call_error = UnsupportedInterface | RemoteCallError

record transport =
  round_trips :: nat
  reachable :: bool
  remote_result :: int

text \<open>
  Modelled from the spec: \<open>notifyUnitByBusChange()\<close> is pure virtual in \<open>YaUnitHandler2\<close>;
  the proxy that implements it is not under src/. The spec: "every mirrored operation on
  the resulting proxy reports UnsupportedInterface rather than attempting a round-trip"
  when the probe reported no support; otherwise the operation "fails with RemoteCallError
  if the transport round-trip cannot complete, otherwise returns exactly what the remote
  real component returned".
\<close>

definition notifyUnitByBusChange :: "YaUnitHandler2 \<Rightarrow> transport \<Rightarrow> (call_error + int) \<times> transport" where
  "notifyUnitByBusChange proxy tr =
     (if \<not> YaUnitHandler2_supported proxy then (Inl UnsupportedInterface, tr)
      else (if reachable tr then Inr (remote_result tr) else Inl RemoteCallError,
            tr\<lparr>round_trips := Suc (round_trips tr)\<rparr>))"

section \<open>\<open>Win32Thread\<close> and \<open>Win32Timer\<close> (src/wine-host/utils.h)\<close>

subsection \<open>The objects and the native resources\<close>

text \<open>
  \<open>Win32Thread\<close> has one member, a \<open>std::unique_ptr\<close> to the thread's handle with
  \<open>CloseHandle\<close> as its deleter; \<open>None\<close> is the null pointer. \<open>Win32Timer\<close> has the window
  handle and a \<open>std::optional\<close> timer identifier.
\<close>

record Win32Thread =
  handle :: "nat option"

record Win32Timer =
  window_handle :: nat
  timer_id :: "nat option"

text \<open>
  What the native side has been asked to do: the handles given to \<open>CloseHandle\<close>, the
  timers armed with \<open>SetTimer\<close> (window, identifier, interval) and the timers disarmed with
  \<open>KillTimer\<close> (window, identifier).
\<close>

record native =
  closed_handles :: "nat list"
  set_timers :: "(nat \<times> nat \<times> nat) list"
  killed_timers :: "(nat \<times> nat) list"

text \<open>
  \<open>Win32Thread\<close> declares no destructor: destroying it destroys the \<open>unique_ptr\<close>, which
  gives a handle that is not null to its deleter \<open>CloseHandle\<close>.
\<close>

definition Win32Thread_destroy :: "Win32Thread \<Rightarrow> native \<Rightarrow> native" where
  "Win32Thread_destroy t os =
     (case handle t of
        None \<Rightarrow> os
      | Some h \<Rightarrow> os\<lparr>closed_handles := closed_handles os @ [h]\<rparr>)"

text \<open>
  Modelled from the spec: the move constructor \<open>Win32Thread(Win32Thread&&)\<close> is declared in
  utils.h, its body is not under src/. The spec: "Move-only: moving transfers handle
  ownership; a moved-from instance owns nothing." The first component of the result is the
  destination, the second the source after the move.
\<close>

definition Win32Thread_move :: "Win32Thread \<Rightarrow> Win32Thread \<times> Win32Thread" where
  "Win32Thread_move source = (\<lparr>handle = handle source\<rparr>, source\<lparr>handle := None\<rparr>)"

text \<open>
  Modelled from the spec: the move assignment \<open>operator=(Win32Thread&&)\<close> is declared in
  utils.h, its body is not under src/. The spec: "moving transfers handle ownership; a
  moved-from instance owns nothing", with "guaranteed release on every exit path": a handle
  the destination owned before is released, as assigning to its \<open>unique_ptr\<close> member does.
\<close>

definition Win32Thread_move_assign ::
  "Win32Thread \<Rightarrow> Win32Thread \<Rightarrow> native \<Rightarrow> (Win32Thread \<times> Win32Thread) \<times> native" where
  "Win32Thread_move_assign destination source os =
     ((destination\<lparr>handle := handle source\<rparr>, source\<lparr>handle := None\<rparr>),
      Win32Thread_destroy destination os)"

text \<open>
  Modelled from the spec: the constructor of \<open>Win32Timer\<close> is declared in utils.h, its body
  is not under src/. The spec: "Construction arms a timer identified by (window_handle,
  timer_id) firing every interval_ms".
\<close>

definition Win32Timer_construct :: "nat \<Rightarrow> nat \<Rightarrow> nat \<Rightarrow> native \<Rightarrow> Win32Timer \<times> native" where
  "Win32Timer_construct window tid interval_ms os =
     (\<lparr>window_handle = window, timer_id = Some tid\<rparr>,
      os\<lparr>set_timers := set_timers os @ [(window, tid, interval_ms)]\<rparr>)"

text \<open>
  Modelled from the spec: the destructor of \<open>Win32Timer\<close> is declared in utils.h, its body
  is not under src/. The spec: "Destruction disarms the timer if it is still armed; an
  instance that has been moved-from owns no timer and disarms nothing."
\<close>

definition Win32Timer_destroy :: "Win32Timer \<Rightarrow> native \<Rightarrow> native" where
  "Win32Timer_destroy t os =
     (case timer_id t of
        None \<Rightarrow> os
      | Some tid \<Rightarrow> os\<lparr>killed_timers := killed_timers os @ [(window_handle t, tid)]\<rparr>)"

text \<open>
  Modelled from the spec: the move constructor \<open>Win32Timer(Win32Timer&&)\<close> is declared in
  utils.h, its body is not under src/. The spec: "Move-only"; "moving transfers exclusive
  ownership: after the move, the source instance owns nothing".
\<close>

definition Win32Timer_move :: "Win32Timer \<Rightarrow> Win32Timer \<times> Win32Timer" where
  "Win32Timer_move source =
     (\<lparr>window_handle = window_handle source, timer_id = timer_id source\<rparr>,
      source\<lparr>timer_id := None\<rparr>)"

text \<open>
  Modelled from the spec: the move assignment \<open>operator=(Win32Timer&&)\<close> is declared in
  utils.h, its body is not under src/. The spec: "after the move, the source instance owns
  nothing". What becomes of a timer the destination owned before is not said; the model
  disarms it, as destroying the destination would.
\<close>

definition Win32Timer_move_assign ::
  "Win32Timer \<Rightarrow> Win32Timer \<Rightarrow> native \<Rightarrow> (Win32Timer \<times> Win32Timer) \<times> native" where
  "Win32Timer_move_assign destination source os =
     ((destination\<lparr>window_handle := window_handle source, timer_id := timer_id source\<rparr>,
       source\<lparr>timer_id := None\<rparr>),
      Win32Timer_destroy destination os)"

subsection \<open>Starting a thread\<close>

text \<open>
  The constructor's parameters \<open>Args&&... args\<close> are references: each argument is the
  address of an object of the caller. \<open>objects\<close> maps an address to the value of the object
  that lives there, and to \<open>None\<close> once its lifetime has ended. The object allocated by
  \<^verbatim>\<open>new std::function<void()>([&, f = std::move(f)]() { ... })\<close> holds the function, moved
  into the closure by the init-capture, and the arguments, captured by reference by the
  capture default \<open>&\<close>: their addresses. A function is identified by a number, and
  \<open>invoked\<close> records every invocation of a function with the values it was given.
\<close>

record entry_point =
  moved_function :: nat
  argument_references :: "nat list"

record process =
  objects :: "nat \<Rightarrow> int option"
  allocated :: "nat \<Rightarrow> entry_point option"
  created_threads :: "(nat \<times> nat) list"
  invoked :: "(nat \<times> int list) list"

text \<open>
  \<^verbatim>\<open>
  Win32Thread(Function&& f, Args&&... args)
      : handle(CreateThread(nullptr, 0,
                            reinterpret_cast<LPTHREAD_START_ROUTINE>(win32_thread_trampoline),
                            new std::function<void()>([&, f = std::move(f)]() {
                                std::invoke(f, decay_copy(std::forward<Args>(args))...);
                            }),
                            0, nullptr),
               CloseHandle) {}
  \<close>
  \<open>closure\<close> is the address \<open>new\<close> returns and \<open>created\<close> what \<open>CreateThread\<close> returns: the
  handle of a thread that will call the trampoline with \<open>closure\<close>, or null.
\<close>

definition Win32Thread_start ::
  "nat \<Rightarrow> nat list \<Rightarrow> nat \<Rightarrow> nat option \<Rightarrow> process \<Rightarrow> Win32Thread \<times> process" where
  "Win32Thread_start f args closure created p =
     (\<lparr>handle = created\<rparr>,
      p\<lparr>allocated :=
          (allocated p)(closure \<mapsto> \<lparr>moved_function = f, argument_references = args\<rparr>),
        created_threads :=
          created_threads p @ (case created of None \<Rightarrow> [] | Some h \<Rightarrow> [(h, closure)])\<rparr>)"

text \<open>
  The body of the lambda, run when the closure is invoked:
  \<^verbatim>\<open>std::invoke(f, decay_copy(std::forward<Args>(args))...);\<close>
  Each argument is read through its reference and copied, and the function is invoked with
  the copies. Reading through a reference to an object whose lifetime has ended is
  undefined behaviour: the model stops with \<open>None\<close>.
\<close>

definition invoke_entry_point :: "entry_point \<Rightarrow> process \<Rightarrow> process option" where
  "invoke_entry_point e p =
     (case those (map (objects p) (argument_references e)) of
        None \<Rightarrow> None
      | Some copies \<Rightarrow> Some (p\<lparr>invoked := invoked p @ [(moved_function e, copies)]\<rparr>))"

text \<open>
  Modelled from the spec: \<open>win32_thread_trampoline\<close> is declared in utils.h, its body is not
  under src/. The spec: "a free trampoline function receives an opaque pointer to that
  closure, invokes it, and deallocates it after completion". The header: "This function
  deallocates the function after it's finished executing."
\<close>

definition win32_thread_trampoline :: "nat \<Rightarrow> process \<Rightarrow> process option" where
  "win32_thread_trampoline entry p =
     (case allocated p entry of
        None \<Rightarrow> None
      | Some e \<Rightarrow>
          (case invoke_entry_point e p of
             None \<Rightarrow> None
           | Some p' \<Rightarrow> Some (p'\<lparr>allocated := (allocated p')(entry := None)\<rparr>)))"

text \<open>
  What the constructing thread may do after the constructor has returned and before the
  new thread reaches the closure: assign to an object it passed, or end its lifetime.
\<close>

definition assign :: "nat \<Rightarrow> int \<Rightarrow> process \<Rightarrow> process" where
  "assign a v p = p\<lparr>objects := (objects p)(a \<mapsto> v)\<rparr>"

definition end_lifetime :: "nat \<Rightarrow> process \<Rightarrow> process" where
  "end_lifetime a p = p\<lparr>objects := (objects p)(a := None)\<rparr>"

text \<open>A caller with one object, holding 1 at address 0, and nothing else.\<close>

definition caller_process :: process where
  "caller_process =
     \<lparr>objects = (\<lambda>a. None)(0 \<mapsto> 1), allocated = (\<lambda>a. None), created_threads = [],
      invoked = []\<rparr>"

section \<open>Properties of the event loop\<close>

subsection \<open>Reading traces\<close>

lemma tick_blocks_append: "tick_blocks xs \<Longrightarrow> tick_blocks ys \<Longrightarrow> tick_blocks (xs @ ys)"
  by (induction xs rule: tick_blocks.induct) auto

lemma chain_trace_append: "chain_trace xs \<Longrightarrow> tick_blocks ys \<Longrightarrow> chain_trace (xs @ ys)"
  by (induction xs rule: chain_trace.induct) (auto simp: tick_blocks_append)

lemma spaced_snoc: "spaced g (ts @ [t]) = (spaced g ts \<and> (ts = [] \<or> last ts + g \<le> t))"
  by (induction g ts rule: spaced.induct) auto

lemma spaced_mono: "spaced g ts \<Longrightarrow> g' \<le> g \<Longrightarrow> spaced g' ts"
  by (induction g ts rule: spaced.induct) auto

lemma scheduled_times_append:
  "scheduled_times (xs @ ys) = scheduled_times xs @ scheduled_times ys"
  by (induction xs rule: scheduled_times.induct) auto

lemma handler_starts_append:
  "handler_starts (xs @ ys) = handler_starts xs @ handler_starts ys"
  by (induction xs rule: handler_starts.induct) auto

lemma ns_of_ms_interval: "ns_of_ms event_loop_interval = 33000000"
  by (simp add: ns_of_ms_def event_loop_interval_def)

lemma ns_of_ms_5: "ns_of_ms 5 = 5000000"
  by (simp add: ns_of_ms_def)

subsection \<open>One invocation of the wait's callback\<close>

lemma wait_callback_failed: "failed error \<Longrightarrow> wait_callback h error s = s"
  by (simp add: wait_callback_def)

lemma wait_callback_success:
  "trace (wait_callback h success s) =
     trace s @ [StoreActive True,
                HandlerRun (steady_clock_now s) (elapsed (h (steady_clock_now s))),
                StoreActive False,
                ExpiresAt (max (events_timer_expiry s + ns_of_ms event_loop_interval)
                   (steady_clock_now s + int (elapsed (h (steady_clock_now s))) + ns_of_ms 5)),
                AsyncWait]"
  "event_loop_active (wait_callback h success s) = False"
  "events_timer_expiry (wait_callback h success s) =
     max (events_timer_expiry s + ns_of_ms event_loop_interval)
         (steady_clock_now s + int (elapsed (h (steady_clock_now s))) + ns_of_ms 5)"
  "events_timer_waits (wait_callback h success s) = [h]"
  "context_ready (wait_callback h success s) =
     context_ready s @ map (\<lambda>h. (h, operation_aborted)) (events_timer_waits s)"
  "steady_clock_now (wait_callback h success s) =
     steady_clock_now s + int (elapsed (h (steady_clock_now s)))"
  "context_stopped (wait_callback h success s) =
     (context_stopped s \<or> calls_stop (h (steady_clock_now s)))"
  by (simp_all add: wait_callback_def async_handle_events_def async_wait_def expires_at_def
      store_event_loop_active_def call_handler_def)

subsection \<open>The reactor at rest\<close>

lemma io_context_run_one_stopped: "context_stopped s \<Longrightarrow> io_context_run_one lag s = s"
  by (simp add: io_context_run_one_def)

lemma io_context_run_stopped: "context_stopped s \<Longrightarrow> io_context_run lags s = s"
  unfolding io_context_run_def
  by (induction lags) (simp_all add: io_context_run_one_stopped)

lemma io_context_run_one_out_of_work: "out_of_work s \<Longrightarrow> io_context_run_one lag s = s"
  by (simp add: io_context_run_one_def out_of_work_def)

lemma io_context_run_out_of_work: "out_of_work s \<Longrightarrow> io_context_run lags s = s"
  unfolding io_context_run_def
  by (induction lags) (simp_all add: io_context_run_one_out_of_work)

lemma io_context_run_Cons:
  "io_context_run (lag # lags) s = io_context_run lags (io_context_run_one lag s)"
  by (simp add: io_context_run_def)

subsection \<open>The invariants hold along every run of the reactor\<close>

lemma chain_inv_start: "idle s \<Longrightarrow> chain_inv (async_handle_events h s)"
  by (simp add: idle_def chain_inv_def async_handle_events_def async_wait_def expires_at_def)

lemma chain_inv_step:
  assumes inv: "chain_inv s"
  shows "chain_inv (io_context_run_one lag s)"
proof (cases "context_stopped s")
  case True
  then show ?thesis using inv by (simp add: io_context_run_one_def)
next
  case running: False
  show ?thesis
  proof (cases "context_ready s")
    case Nil
    then show ?thesis using inv running
      by (auto simp: io_context_run_one_def chain_inv_def)
  next
    case (Cons c rest)
    obtain h error where c: "c = (h, error)" by (cases c)
    from inv Cons have empty: "rest = []" "events_timer_waits s = []"
      by (auto simp: chain_inv_def)
    show ?thesis
    proof (cases error)
      case success
      then show ?thesis using inv running Cons c empty
        by (simp add: io_context_run_one_def chain_inv_def wait_callback_success
            chain_trace_append)
    next
      case operation_aborted
      then show ?thesis using inv running Cons c empty
        by (simp add: io_context_run_one_def chain_inv_def wait_callback_failed)
    qed
  qed
qed

lemma chain_inv_run: "chain_inv s \<Longrightarrow> chain_inv (io_context_run lags s)"
  unfolding io_context_run_def
  by (induction lags arbitrary: s) (simp_all add: chain_inv_step)

lemma gap_inv_start: "idle s \<Longrightarrow> gap_inv (async_handle_events h s)"
  by (simp add: idle_def gap_inv_def async_handle_events_def async_wait_def expires_at_def)

lemma gap_inv_step:
  assumes inv: "gap_inv s"
  shows "gap_inv (io_context_run_one lag s)"
proof (cases "context_stopped s")
  case True
  then show ?thesis using inv by (simp add: io_context_run_one_def)
next
  case running: False
  show ?thesis
  proof (cases "context_ready s")
    case Nil
    then show ?thesis using inv running
      by (auto simp: io_context_run_one_def gap_inv_def)
  next
    case (Cons c rest)
    obtain h error where c: "c = (h, error)" by (cases c)
    from inv Cons have empty: "rest = []" "events_timer_waits s = []"
      by (auto simp: gap_inv_def)
    from inv Cons have due: "events_timer_expiry s \<le> steady_clock_now s"
      by (auto simp: gap_inv_def)
    show ?thesis
    proof (cases error)
      case success
      then show ?thesis using inv running Cons c empty due
        by (auto simp: io_context_run_one_def gap_inv_def wait_callback_success
            scheduled_times_append handler_starts_append spaced_snoc
            ns_of_ms_interval ns_of_ms_5)
    next
      case operation_aborted
      then show ?thesis using inv running Cons c empty
        by (simp add: io_context_run_one_def gap_inv_def wait_callback_failed)
    qed
  qed
qed

lemma gap_inv_run: "gap_inv s \<Longrightarrow> gap_inv (io_context_run lags s)"
  unfolding io_context_run_def
  by (induction lags arbitrary: s) (simp_all add: gap_inv_step)

lemma punctual_inv_start: "idle s \<Longrightarrow> punctual_inv h (async_handle_events h s)"
  by (simp add: idle_def punctual_inv_def async_handle_events_def async_wait_def
      expires_at_def ns_of_ms_5)

lemma punctual_inv_step:
  assumes inv: "punctual_inv h s" and instant: "\<And>t. elapsed (h t) = 0"
  shows "punctual_inv h (io_context_run_one 0 s)"
proof (cases "context_stopped s")
  case True
  then show ?thesis using inv by (simp add: io_context_run_one_def)
next
  case running: False
  show ?thesis
  proof (cases "context_ready s")
    case Nil
    then show ?thesis using inv running
      by (auto simp: io_context_run_one_def punctual_inv_def)
  next
    case (Cons c rest)
    obtain h' error where c: "c = (h', error)" by (cases c)
    from inv Cons c have same: "h' = h"
      by (auto simp: punctual_inv_def)
    from inv Cons have empty: "rest = []" "events_timer_waits s = []"
      by (auto simp: punctual_inv_def)
    from inv Cons have due: "events_timer_expiry s = steady_clock_now s"
      by (auto simp: punctual_inv_def)
    show ?thesis
    proof (cases error)
      case success
      then show ?thesis using inv running Cons c empty due same instant
        by (auto simp: io_context_run_one_def punctual_inv_def wait_callback_success
            handler_starts_append spaced_snoc ns_of_ms_interval ns_of_ms_5)
    next
      case operation_aborted
      then show ?thesis using inv running Cons c empty
        by (auto simp: io_context_run_one_def punctual_inv_def wait_callback_failed)
    qed
  qed
qed

lemma punctual_inv_run:
  assumes instant: "\<And>t. elapsed (h t) = 0"
  shows "punctual_inv h s \<Longrightarrow> punctual_inv h (io_context_run (replicate n 0) s)"
  unfolding io_context_run_def
  by (induction n arbitrary: s) (simp_all add: punctual_inv_step instant)

subsection \<open>Runs of the example inputs\<close>

lemma fresh_context_idle: "idle fresh_context"
  by (simp add: idle_def fresh_context_def)

lemma slow_run_trace:
  "trace (io_context_run [0, 0, 7000, 0] (async_handle_events slow_handler fresh_context)) =
     [ExpiresAt 1005000000, AsyncWait,
      StoreActive True, HandlerRun 1005000000 100000000, StoreActive False,
      ExpiresAt 1110000000, AsyncWait,
      StoreActive True, HandlerRun 1110007000 100000000, StoreActive False,
      ExpiresAt 1215007000, AsyncWait]"
  by (simp add: io_context_run_def io_context_run_one_def wait_callback_def
      async_handle_events_def async_wait_def expires_at_def store_event_loop_active_def
      call_handler_def fresh_context_def slow_handler_def ns_of_ms_def event_loop_interval_def)

lemma replicate_20:
  "replicate 20 (0::nat) = [0, 0, 0, 0, 0, 0, 0, 0, 0, 0, 0, 0, 0, 0, 0, 0, 0, 0, 0, 0]"
  by (simp add: numeral_eq_Suc)

lemma instant_run_trace:
  "handler_starts
     (trace (io_context_run (replicate 20 0) (async_handle_events instant_handler fresh_context))) =
     [1005000000, 1038000000, 1071000000, 1104000000, 1137000000, 1170000000, 1203000000,
      1236000000, 1269000000, 1302000000]"
  unfolding replicate_20
  by (simp add: io_context_run_def io_context_run_one_def wait_callback_def
      async_handle_events_def async_wait_def expires_at_def store_event_loop_active_def
      call_handler_def fresh_context_def instant_handler_def ns_of_ms_def event_loop_interval_def)

text \<open>
  The cadence is anchored to the timer's expiry times, not to the times the handler runs
  at: a tick that is dispatched 30 ms late is followed by the next one 5 ms later, although
  the handler takes no time. The expiry times are still more than 33 ms apart.
\<close>

lemma late_dispatch_run:
  "handler_starts
     (trace (io_context_run [30000000, 0, 0, 0]
        (async_handle_events instant_handler fresh_context))) =
     [1035000000, 1040000000]
   \<and> scheduled_times
     (trace (io_context_run [30000000, 0, 0, 0]
        (async_handle_events instant_handler fresh_context))) =
     [1005000000, 1040000000, 1073000000]"
  by (simp add: io_context_run_def io_context_run_one_def wait_callback_def
      async_handle_events_def async_wait_def expires_at_def store_event_loop_active_def
      call_handler_def fresh_context_def instant_handler_def ns_of_ms_def event_loop_interval_def)

section \<open>The claims about the event loop\<close>

text \<open>
  C2. For every call of \<open>async_handle_events\<close>, the timer's next expiry is the later of
  its previous expiry plus \<open>event_loop_interval\<close> and the current time plus five
  milliseconds; the one wait registered by the call waits for that time.
\<close>

theorem async_handle_events_expiry:
  "events_timer_expiry (async_handle_events h s) =
     max (events_timer_expiry s + ns_of_ms event_loop_interval)
         (steady_clock_now s + ns_of_ms 5)
   \<and> trace (async_handle_events h s) =
       trace s @ [ExpiresAt (max (events_timer_expiry s + ns_of_ms event_loop_interval)
                                 (steady_clock_now s + ns_of_ms 5)), AsyncWait]
   \<and> events_timer_waits (async_handle_events h s) = [h]"
  by (simp add: async_handle_events_def async_wait_def expires_at_def)

text \<open>
  C1. An execution of the tick callback is four steps: the flag is stored true, the handler
  runs, the flag is stored false, \<open>async_handle_events\<close> is called. \<open>event_loop_active\<close> is
  true in the state the handler is started in and still true in the state it returns in;
  it is false in the state right after the handler has returned, in which the next wait is
  not yet registered and the trace ends with the store of false; and it is false when the
  callback is done. The trace of the callback is the store of true, the run of the handler,
  the store of false, and only then the timer's next expiry and the next wait. Along every
  run of the reactor that starts with one call of \<open>async_handle_events\<close> on an idle
  context, the trace is a chain of such whole ticks, one after the other, the flag is
  false between any two iterations of the reactor, and at most one wait of the chain is
  outstanding or queued at any time: no tick can start while another runs.
\<close>

theorem event_loop_active_spans_handler:
  assumes "idle s0"
  shows
    "wait_callback h success s =
       async_handle_events h
         (store_event_loop_active False
            (call_handler h (store_event_loop_active True s)))
     \<and> event_loop_active (store_event_loop_active True s)
     \<and> event_loop_active (call_handler h (store_event_loop_active True s))
     \<and> \<not> event_loop_active
          (store_event_loop_active False (call_handler h (store_event_loop_active True s)))
     \<and> events_timer_waits
          (store_event_loop_active False (call_handler h (store_event_loop_active True s))) =
         events_timer_waits s
     \<and> trace (store_event_loop_active False (call_handler h (store_event_loop_active True s))) =
         trace s @ [StoreActive True,
                    HandlerRun (steady_clock_now s) (elapsed (h (steady_clock_now s))),
                    StoreActive False]
     \<and> trace (wait_callback h success s) =
       trace s @ [StoreActive True,
                  HandlerRun (steady_clock_now s) (elapsed (h (steady_clock_now s))),
                  StoreActive False,
                  ExpiresAt (max (events_timer_expiry s + ns_of_ms event_loop_interval)
                     (steady_clock_now s + int (elapsed (h (steady_clock_now s))) + ns_of_ms 5)),
                  AsyncWait]
     \<and> \<not> event_loop_active (wait_callback h success s)
     \<and> chain_trace (trace (io_context_run lags (async_handle_events h s0)))
     \<and> \<not> event_loop_active (io_context_run lags (async_handle_events h s0))
     \<and> length (events_timer_waits (io_context_run lags (async_handle_events h s0)))
         + length (context_ready (io_context_run lags (async_handle_events h s0))) \<le> 1"
proof -
  have steps: "wait_callback h success s =
      async_handle_events h
        (store_event_loop_active False
           (call_handler h (store_event_loop_active True s)))"
    by (simp add: wait_callback_def)
  have during: "event_loop_active (store_event_loop_active True s)"
    "event_loop_active (call_handler h (store_event_loop_active True s))"
    by (simp_all add: store_event_loop_active_def call_handler_def)
  have after: "\<not> event_loop_active
      (store_event_loop_active False (call_handler h (store_event_loop_active True s)))"
    "events_timer_waits
      (store_event_loop_active False (call_handler h (store_event_loop_active True s))) =
      events_timer_waits s"
    "trace (store_event_loop_active False (call_handler h (store_event_loop_active True s))) =
      trace s @ [StoreActive True,
                 HandlerRun (steady_clock_now s) (elapsed (h (steady_clock_now s))),
                 StoreActive False]"
    by (simp_all add: store_event_loop_active_def call_handler_def)
  have "chain_inv (io_context_run lags (async_handle_events h s0))"
    using assms by (simp add: chain_inv_start chain_inv_run)
  then have runs: "chain_trace (trace (io_context_run lags (async_handle_events h s0)))"
    "\<not> event_loop_active (io_context_run lags (async_handle_events h s0))"
    "length (events_timer_waits (io_context_run lags (async_handle_events h s0)))
       + length (context_ready (io_context_run lags (async_handle_events h s0))) \<le> 1"
    by (simp_all add: chain_inv_def)
  from steps during after runs wait_callback_success(1,2) [of h s] show ?thesis
    by blast
qed

theorem event_loop_active_spans_handler_witness:
  "idle fresh_context
   \<and> event_loop_active (store_event_loop_active True fresh_context)
   \<and> event_loop_active (call_handler slow_handler (store_event_loop_active True fresh_context))
   \<and> \<not> event_loop_active
        (store_event_loop_active False
           (call_handler slow_handler (store_event_loop_active True fresh_context)))
   \<and> trace (wait_callback slow_handler success fresh_context) =
       [StoreActive True, HandlerRun 1000000000 100000000, StoreActive False,
        ExpiresAt 1105000000, AsyncWait]
   \<and> \<not> event_loop_active (wait_callback slow_handler success fresh_context)
   \<and> chain_trace
       (trace (io_context_run [0, 0, 7000, 0] (async_handle_events slow_handler fresh_context)))
   \<and> \<not> event_loop_active
       (io_context_run [0, 0, 7000, 0] (async_handle_events slow_handler fresh_context))
   \<and> trace (io_context_run [0, 0, 7000, 0] (async_handle_events slow_handler fresh_context)) =
     [ExpiresAt 1005000000, AsyncWait,
      StoreActive True, HandlerRun 1005000000 100000000, StoreActive False,
      ExpiresAt 1110000000, AsyncWait,
      StoreActive True, HandlerRun 1110007000 100000000, StoreActive False,
      ExpiresAt 1215007000, AsyncWait]"
proof -
  have t: "trace (wait_callback slow_handler success fresh_context) =
       [StoreActive True, HandlerRun 1000000000 100000000, StoreActive False,
        ExpiresAt 1105000000, AsyncWait]"
    by (simp add: wait_callback_success fresh_context_def slow_handler_def ns_of_ms_def
        event_loop_interval_def)
  note th = event_loop_active_spans_handler [OF fresh_context_idle,
      of slow_handler fresh_context "[0, 0, 7000, 0]"]
  from th have flag:
    "event_loop_active (store_event_loop_active True fresh_context)"
    "event_loop_active (call_handler slow_handler (store_event_loop_active True fresh_context))"
    "\<not> event_loop_active
        (store_event_loop_active False
           (call_handler slow_handler (store_event_loop_active True fresh_context)))"
    "\<not> event_loop_active (wait_callback slow_handler success fresh_context)"
    "chain_trace
       (trace (io_context_run [0, 0, 7000, 0] (async_handle_events slow_handler fresh_context)))"
    "\<not> event_loop_active
       (io_context_run [0, 0, 7000, 0] (async_handle_events slow_handler fresh_context))"
    by blast+
  from flag fresh_context_idle slow_run_trace t show ?thesis
    by blast
qed

text \<open>
  C3. Every call of \<open>async_handle_events\<close> gives the timer an expiry at least five
  milliseconds after its previous expiry and at least five milliseconds after the current
  time. Along every run of the reactor that starts with one call of \<open>async_handle_events\<close>
  on an idle context, whatever time each invocation of the handler takes and whatever the
  latency of each wake-up, consecutive expiry times given to the timer are at least five
  milliseconds apart, and so are the times at which consecutive ticks start.
\<close>

theorem ticks_minimum_gap:
  assumes "idle s0"
  shows
    "events_timer_expiry s + ns_of_ms 5 \<le> events_timer_expiry (async_handle_events h s)
     \<and> steady_clock_now s + ns_of_ms 5 \<le> events_timer_expiry (async_handle_events h s)
     \<and> spaced (ns_of_ms 5)
       (scheduled_times (trace (io_context_run lags (async_handle_events h s0))))
     \<and> spaced (ns_of_ms 5)
       (handler_starts (trace (io_context_run lags (async_handle_events h s0))))"
proof -
  have inv: "gap_inv (io_context_run lags (async_handle_events h s0))"
    using assms by (simp add: gap_inv_start gap_inv_run)
  have "ns_of_ms 5 \<le> ns_of_ms event_loop_interval"
    by (simp add: ns_of_ms_def event_loop_interval_def)
  with inv have runs:
    "spaced (ns_of_ms 5)
       (scheduled_times (trace (io_context_run lags (async_handle_events h s0))))"
    "spaced (ns_of_ms 5)
       (handler_starts (trace (io_context_run lags (async_handle_events h s0))))"
    by (auto simp: gap_inv_def intro: spaced_mono)
  have call:
    "events_timer_expiry s + ns_of_ms 5 \<le> events_timer_expiry (async_handle_events h s)"
    "steady_clock_now s + ns_of_ms 5 \<le> events_timer_expiry (async_handle_events h s)"
    by (simp_all add: async_handle_events_def async_wait_def expires_at_def
        ns_of_ms_def event_loop_interval_def)
  from runs call show ?thesis
    by blast
qed

theorem ticks_minimum_gap_witness:
  "idle fresh_context
   \<and> scheduled_times
       (trace (io_context_run [0, 0, 7000, 0] (async_handle_events slow_handler fresh_context))) =
     [1005000000, 1110000000, 1215007000]
   \<and> handler_starts
       (trace (io_context_run [0, 0, 7000, 0] (async_handle_events slow_handler fresh_context))) =
     [1005000000, 1110007000]
   \<and> spaced (ns_of_ms 5)
       (scheduled_times
         (trace (io_context_run [0, 0, 7000, 0] (async_handle_events slow_handler fresh_context))))
   \<and> spaced (ns_of_ms 5)
       (handler_starts
         (trace (io_context_run [0, 0, 7000, 0] (async_handle_events slow_handler fresh_context))))"
  using ticks_minimum_gap [OF fresh_context_idle, of fresh_context slow_handler "[0, 0, 7000, 0]"]
    fresh_context_idle
  by (simp add: slow_run_trace)

text \<open>
  C9, as stated, does not hold: the handler takes no time, the first tick is dispatched
  30 ms after the timer's expiry, and the second tick starts 5 ms after the first, not 33 ms.
  The cadence is anchored to the timer's expiry times ("try to keep a steady framerate"),
  so a tick that runs late is followed sooner.
\<close>

theorem event_loop_interval_is_33_ms_counterexample:
  "idle fresh_context
   \<and> (\<forall>t. elapsed (instant_handler t) = 0)
   \<and> handler_starts
       (trace (io_context_run [30000000, 0, 0, 0]
          (async_handle_events instant_handler fresh_context))) =
       [1035000000, 1040000000]
   \<and> \<not> spaced (ns_of_ms 33)
       (handler_starts
         (trace (io_context_run [30000000, 0, 0, 0]
            (async_handle_events instant_handler fresh_context))))"
proof -
  have instant: "\<forall>t. elapsed (instant_handler t) = 0"
    by (simp add: instant_handler_def)
  have starts: "handler_starts
       (trace (io_context_run [30000000, 0, 0, 0]
          (async_handle_events instant_handler fresh_context))) =
       [1035000000, 1040000000]"
    using late_dispatch_run by blast
  have "\<not> spaced (ns_of_ms 33) [1035000000, 1040000000]"
    by (simp add: ns_of_ms_def)
  with starts instant fresh_context_idle show ?thesis
    by simp
qed

text \<open>
  C9, amended. \<open>event_loop_interval\<close> is 1000 ms divided by 30 in integer arithmetic, which is
  33 ms. The times the ticks are scheduled at, the expiry times given to the timer, are
  always at least 33 ms apart, whatever the handler and the reactor do; and when the
  handler takes no time and the reactor dispatches every completion at the timer's expiry,
  the handler runs at these times, so that consecutive ticks also start at least 33 ms
  apart.
\<close>

theorem event_loop_interval_is_33_ms:
  assumes "idle s0"
  shows
    "event_loop_interval = 1000 div 30
     \<and> event_loop_interval = 33
     \<and> spaced (ns_of_ms 33)
         (scheduled_times (trace (io_context_run lags (async_handle_events h s0))))
     \<and> ((\<forall>t. elapsed (h t) = 0) \<longrightarrow>
          spaced (ns_of_ms 33)
            (handler_starts (trace (io_context_run (replicate n 0) (async_handle_events h s0)))))"
proof -
  have i: "event_loop_interval = 33"
    by (simp add: event_loop_interval_def)
  have "gap_inv (io_context_run lags (async_handle_events h s0))"
    using assms by (simp add: gap_inv_start gap_inv_run)
  then have sched: "spaced (ns_of_ms 33)
      (scheduled_times (trace (io_context_run lags (async_handle_events h s0))))"
    by (simp add: gap_inv_def i)
  have "spaced (ns_of_ms 33)
      (handler_starts (trace (io_context_run (replicate n 0) (async_handle_events h s0))))"
    if instant: "\<forall>t. elapsed (h t) = 0"
  proof -
    have "punctual_inv h (io_context_run (replicate n 0) (async_handle_events h s0))"
      using assms instant by (simp add: punctual_inv_start punctual_inv_run)
    then show ?thesis
      by (simp add: punctual_inv_def i)
  qed
  moreover have "event_loop_interval = 1000 div 30"
    by (simp add: event_loop_interval_def)
  ultimately show ?thesis
    using sched i by blast
qed

theorem event_loop_interval_is_33_ms_witness:
  "idle fresh_context
   \<and> (\<forall>t. elapsed (instant_handler t) = 0)
   \<and> event_loop_interval = 33
   \<and> handler_starts
       (trace (io_context_run (replicate 20 0) (async_handle_events instant_handler fresh_context))) =
       [1005000000, 1038000000, 1071000000, 1104000000, 1137000000, 1170000000, 1203000000,
        1236000000, 1269000000, 1302000000]
   \<and> spaced (ns_of_ms 33)
       (scheduled_times
         (trace (io_context_run [0, 0, 7000, 0] (async_handle_events instant_handler fresh_context))))
   \<and> spaced (ns_of_ms 33)
       (handler_starts
         (trace (io_context_run (replicate 20 0) (async_handle_events instant_handler fresh_context))))"
proof -
  have instant: "\<forall>t. elapsed (instant_handler t) = 0"
    by (simp add: instant_handler_def)
  show ?thesis
    using event_loop_interval_is_33_ms [OF fresh_context_idle,
        of "[0, 0, 7000, 0]" instant_handler 20]
      fresh_context_idle instant instant_run_trace
    by blast
qed

text \<open>
  C10. A wait that completes with an error leaves the whole state as it is: the handler is
  not invoked, \<open>event_loop_active\<close> is not stored to and nothing is registered on the timer.
  When that wait was the only work of the reactor, the reactor is out of work afterwards:
  the chain of ticks has ended.
\<close>

theorem failed_wait_ends_chain:
  assumes "failed error" and "context_ready s = [(h, error)]"
    and "events_timer_waits s = []" and "\<not> context_stopped s"
  shows
    "wait_callback h error s' = s'
     \<and> io_context_run (lag # lags) s = s\<lparr>context_ready := []\<rparr>
     \<and> out_of_work (io_context_run (lag # lags) s)"
proof -
  have one: "io_context_run_one lag s = s\<lparr>context_ready := []\<rparr>"
    using assms by (simp add: io_context_run_one_def wait_callback_failed)
  have rest: "out_of_work (s\<lparr>context_ready := []\<rparr>)"
    using assms by (simp add: out_of_work_def)
  show ?thesis
    using assms(1) one rest
    by (simp add: wait_callback_failed io_context_run_Cons io_context_run_out_of_work)
qed

theorem failed_wait_ends_chain_witness:
  "failed operation_aborted
   \<and> context_ready (expires_at 2000000000 (async_handle_events slow_handler fresh_context)) =
       [(slow_handler, operation_aborted)]
   \<and> events_timer_waits (expires_at 2000000000 (async_handle_events slow_handler fresh_context)) = []
   \<and> \<not> context_stopped (expires_at 2000000000 (async_handle_events slow_handler fresh_context))
   \<and> wait_callback slow_handler operation_aborted fresh_context = fresh_context
   \<and> trace (io_context_run [0, 0, 0]
        (expires_at 2000000000 (async_handle_events slow_handler fresh_context))) =
       [ExpiresAt 1005000000, AsyncWait, ExpiresAt 2000000000]
   \<and> out_of_work (io_context_run [0, 0, 0]
        (expires_at 2000000000 (async_handle_events slow_handler fresh_context)))"
proof -
  let ?s = "expires_at 2000000000 (async_handle_events slow_handler fresh_context)"
  have r: "context_ready ?s = [(slow_handler, operation_aborted)]"
    and w: "events_timer_waits ?s = []"
    and c: "\<not> context_stopped ?s"
    and t: "trace ?s = [ExpiresAt 1005000000, AsyncWait, ExpiresAt 2000000000]"
    by (simp_all add: expires_at_def async_handle_events_def async_wait_def fresh_context_def
        ns_of_ms_def event_loop_interval_def)
  have f: "failed operation_aborted" by simp
  note chain = failed_wait_ends_chain [OF f r w c, of fresh_context 0 "[0, 0]"]
  from chain have "io_context_run [0, 0, 0] ?s = ?s\<lparr>context_ready := []\<rparr>"
    by blast
  then have "trace (io_context_run [0, 0, 0] ?s) = trace ?s"
    by simp
  then have tr: "trace (io_context_run [0, 0, 0] ?s) =
      [ExpiresAt 1005000000, AsyncWait, ExpiresAt 2000000000]"
    using t by simp
  from chain have cb: "wait_callback slow_handler operation_aborted fresh_context = fresh_context"
    and ow: "out_of_work (io_context_run [0, 0, 0] ?s)"
    by blast+
  from f r w c cb tr ow show ?thesis
    by blast
qed

text \<open>
  C8. After \<open>stop()\<close> the reactor dispatches nothing, whatever is outstanding or queued: no
  further tick fires. A tick during whose handler \<open>stop()\<close> is called still runs to its end:
  the flag is stored false and the next wait is even registered, and only then does the
  reactor come to rest.
\<close>

theorem stop_drops_future_ticks:
  assumes "\<not> context_stopped s" and "context_ready s = (h, success) # rest"
    and "calls_stop (h (steady_clock_now s))"
  shows
    "run lags (stop s') = stop s'
     \<and> trace (run [lag] s) =
         trace s @ [StoreActive True,
                    HandlerRun (steady_clock_now s) (elapsed (h (steady_clock_now s))),
                    StoreActive False,
                    ExpiresAt (max (events_timer_expiry s + ns_of_ms event_loop_interval)
                       (steady_clock_now s + int (elapsed (h (steady_clock_now s))) + ns_of_ms 5)),
                    AsyncWait]
     \<and> context_stopped (run [lag] s)
     \<and> \<not> event_loop_active (run [lag] s)
     \<and> run (lag # lags) s = run [lag] s"
proof -
  have stopped: "run lags (stop s') = stop s'"
    by (simp add: run_def stop_def io_context_run_stopped)
  have one: "run [lag] s = wait_callback h success (s\<lparr>context_ready := rest\<rparr>)"
    using assms by (simp add: run_def io_context_run_def io_context_run_one_def)
  have halted: "context_stopped (run [lag] s)"
    using assms by (simp add: one wait_callback_success)
  have "run (lag # lags) s = io_context_run lags (run [lag] s)"
    by (simp add: run_def io_context_run_def)
  with halted have "run (lag # lags) s = run [lag] s"
    by (simp add: io_context_run_stopped)
  with stopped halted show ?thesis
    by (simp add: one wait_callback_success)
qed

theorem stop_drops_future_ticks_witness:
  "\<not> context_stopped (run [0] (async_handle_events stopping_handler fresh_context))
   \<and> context_ready (run [0] (async_handle_events stopping_handler fresh_context)) =
       [(stopping_handler, success)]
   \<and> calls_stop (stopping_handler 1005000000)
   \<and> run [0, 0] (stop (async_handle_events stopping_handler fresh_context)) =
       stop (async_handle_events stopping_handler fresh_context)
   \<and> trace (run [0, 0] (async_handle_events stopping_handler fresh_context)) =
       [ExpiresAt 1005000000, AsyncWait,
        StoreActive True, HandlerRun 1005000000 2000000, StoreActive False,
        ExpiresAt 1038000000, AsyncWait]
   \<and> context_stopped (run [0, 0] (async_handle_events stopping_handler fresh_context))
   \<and> run [0, 0, 0, 0] (async_handle_events stopping_handler fresh_context) =
       run [0, 0] (async_handle_events stopping_handler fresh_context)"
proof -
  let ?start = "async_handle_events stopping_handler fresh_context"
  let ?fired = "run [0] ?start"
  have c: "\<not> context_stopped ?fired"
    and r: "context_ready ?fired = [(stopping_handler, success)]"
    and n: "steady_clock_now ?fired = 1005000000"
    and e: "events_timer_expiry ?fired = 1005000000"
    and t: "trace ?fired = [ExpiresAt 1005000000, AsyncWait]"
    by (simp_all add: run_def io_context_run_def io_context_run_one_def expires_at_def
        async_handle_events_def async_wait_def fresh_context_def ns_of_ms_def
        event_loop_interval_def)
  have k: "calls_stop (stopping_handler (steady_clock_now ?fired))"
    and k': "calls_stop (stopping_handler 1005000000)"
    by (simp_all add: stopping_handler_def)
  have two: "run [0, 0] ?start = run [0] ?fired"
    and four: "run [0, 0, 0, 0] ?start = run [0, 0, 0] ?fired"
    by (simp_all add: run_def io_context_run_def)
  note th = stop_drops_future_ticks [OF c r k, of "[0, 0]" ?start 0]
  from th have a: "run [0, 0] (stop ?start) = stop ?start"
    and b: "context_stopped (run [0] ?fired)"
    and d: "run [0, 0, 0] ?fired = run [0] ?fired"
    by blast+
  from th have "trace (run [0] ?fired) =
      trace ?fired @ [StoreActive True,
        HandlerRun (steady_clock_now ?fired) (elapsed (stopping_handler (steady_clock_now ?fired))),
        StoreActive False,
        ExpiresAt (max (events_timer_expiry ?fired + ns_of_ms event_loop_interval)
          (steady_clock_now ?fired + int (elapsed (stopping_handler (steady_clock_now ?fired)))
             + ns_of_ms 5)),
        AsyncWait]"
    by blast
  then have tr: "trace (run [0] ?fired) =
      [ExpiresAt 1005000000, AsyncWait,
       StoreActive True, HandlerRun 1005000000 2000000, StoreActive False,
       ExpiresAt 1038000000, AsyncWait]"
    unfolding n e t
    by (simp add: stopping_handler_def ns_of_ms_def event_loop_interval_def)
  show ?thesis
    unfolding two four
    using c r k' a b d tr by blast
qed

section \<open>The claims about \<open>YaUnitHandler2\<close>\<close>

text \<open>
  C5. Serializing a \<open>ConstructArgs\<close> value writes exactly one byte, the byte of its
  \<open>supported\<close> flag, and deserializing what was written gives back the same value, whatever
  the object read into held before.
\<close>

theorem ConstructArgs_round_trip:
  "to_bytes args = Some [if supported args then 1 else 0]
   \<and> map_option length (to_bytes args) = Some 1
   \<and> from_bytes [if supported args then 1 else 0] into = Some args
   \<and> Option.bind (to_bytes args) (\<lambda>buffer. from_bytes buffer into) = Some args
   \<and> serialize (Serializer buffer) args =
       Inr (args, Serializer (buffer @ [if supported args then 1 else 0]))
   \<and> serialize (Deserializer ((if supported args then 1 else 0) # buffer)) into =
       Inr (args, Deserializer buffer)"
  by (cases args; cases into) (simp add: to_bytes_def from_bytes_def serialize_def)

text \<open>
  C4. For a component that does not answer the query for \<open>IUnitHandler2\<close>, the probe gives
  \<open>supported() == false\<close>, and the mirrored operation of the proxy built from it reports
  \<open>UnsupportedInterface\<close> and leaves the transport as it was: no round-trip is counted.
\<close>

theorem unsupported_interface_not_forwarded:
  assumes "IUnitHandler2_iid \<notin> set (interfaces object)"
  shows
    "\<not> YaUnitHandler2_supported (YaUnitHandler2_construct (ConstructArgs_probe object))
     \<and> notifyUnitByBusChange (YaUnitHandler2_construct (ConstructArgs_probe object)) tr =
         (Inl UnsupportedInterface, tr)"
  using assms
  by (simp add: YaUnitHandler2_supported_def YaUnitHandler2_construct_def
      ConstructArgs_probe_def notifyUnitByBusChange_def)

theorem unsupported_interface_not_forwarded_witness:
  "IUnitHandler2_iid \<notin> set (interfaces \<lparr>interfaces = [''FUnknown'', ''IUnitHandler'']\<rparr>)
   \<and> \<not> YaUnitHandler2_supported
        (YaUnitHandler2_construct (ConstructArgs_probe \<lparr>interfaces = [''FUnknown'', ''IUnitHandler'']\<rparr>))
   \<and> notifyUnitByBusChange
        (YaUnitHandler2_construct (ConstructArgs_probe \<lparr>interfaces = [''FUnknown'', ''IUnitHandler'']\<rparr>))
        \<lparr>round_trips = 0, reachable = True, remote_result = 0\<rparr> =
       (Inl UnsupportedInterface, \<lparr>round_trips = 0, reachable = True, remote_result = 0\<rparr>)"
proof -
  have absent: "IUnitHandler2_iid \<notin> set (interfaces \<lparr>interfaces = [''FUnknown'', ''IUnitHandler'']\<rparr>)"
    by (simp add: IUnitHandler2_iid_def)
  from unsupported_interface_not_forwarded [OF absent,
      of "\<lparr>round_trips = 0, reachable = True, remote_result = 0\<rparr>"] absent
  show ?thesis by blast
qed

section \<open>The claims about \<open>Win32Thread\<close> and \<open>Win32Timer\<close>\<close>

text \<open>
  C6. The closure built by the constructor of \<open>Win32Thread\<close> holds references to the
  arguments, and copies them only when the new thread invokes it. When the caller assigns
  2 to an argument object that held 1 at construction time, the function is invoked with
  2; when nothing happens in between it is invoked with 1; in both cases the trampoline
  then deallocates the closure; and when the object's lifetime has ended the invocation
  reads through a dangling reference.
\<close>

theorem Win32Thread_copies_arguments_when_invoked:
  "map_option invoked
     (win32_thread_trampoline 100
        (assign 0 2 (snd (Win32Thread_start 7 [0] 100 (Some 1) caller_process)))) =
     Some [(7, [2])]
   \<and> map_option invoked
     (win32_thread_trampoline 100
        (snd (Win32Thread_start 7 [0] 100 (Some 1) caller_process))) =
     Some [(7, [1])]
   \<and> map_option (\<lambda>p. allocated p 100)
     (win32_thread_trampoline 100
        (assign 0 2 (snd (Win32Thread_start 7 [0] 100 (Some 1) caller_process)))) =
     Some None
   \<and> win32_thread_trampoline 100
        (end_lifetime 0 (snd (Win32Thread_start 7 [0] 100 (Some 1) caller_process))) = None"
  by (simp add: win32_thread_trampoline_def invoke_entry_point_def Win32Thread_start_def
      assign_def end_lifetime_def caller_process_def)

text \<open>
  C7. Moving a \<open>Win32Thread\<close> that owns a handle, or a \<open>Win32Timer\<close> that owns a timer,
  by move construction or by move assignment, leaves the source owning nothing: destroying
  the source does not touch the native side, and destroying the destination releases the
  handle (disarms the timer) once; destroying both releases it exactly once.
\<close>

theorem move_transfers_ownership:
  assumes "handle t = Some h" and "timer_id m = Some i"
  shows
    "handle (snd (Win32Thread_move t)) = None
     \<and> Win32Thread_destroy (snd (Win32Thread_move t)) os = os
     \<and> Win32Thread_destroy (fst (Win32Thread_move t)) os =
         os\<lparr>closed_handles := closed_handles os @ [h]\<rparr>
     \<and> Win32Thread_destroy (snd (Win32Thread_move t))
         (Win32Thread_destroy (fst (Win32Thread_move t)) os) =
         os\<lparr>closed_handles := closed_handles os @ [h]\<rparr>
     \<and> Win32Thread_destroy (snd (fst (Win32Thread_move_assign d t os))) os = os
     \<and> Win32Thread_destroy (fst (fst (Win32Thread_move_assign d t os))) os =
         os\<lparr>closed_handles := closed_handles os @ [h]\<rparr>
     \<and> timer_id (snd (Win32Timer_move m)) = None
     \<and> Win32Timer_destroy (snd (Win32Timer_move m)) os = os
     \<and> Win32Timer_destroy (fst (Win32Timer_move m)) os =
         os\<lparr>killed_timers := killed_timers os @ [(window_handle m, i)]\<rparr>
     \<and> Win32Timer_destroy (snd (Win32Timer_move m))
         (Win32Timer_destroy (fst (Win32Timer_move m)) os) =
         os\<lparr>killed_timers := killed_timers os @ [(window_handle m, i)]\<rparr>
     \<and> Win32Timer_destroy (snd (fst (Win32Timer_move_assign e m os))) os = os
     \<and> Win32Timer_destroy (fst (fst (Win32Timer_move_assign e m os))) os =
         os\<lparr>killed_timers := killed_timers os @ [(window_handle m, i)]\<rparr>"
  using assms
  by (simp add: Win32Thread_move_def Win32Thread_destroy_def Win32Thread_move_assign_def
      Win32Timer_move_def Win32Timer_destroy_def Win32Timer_move_assign_def)

theorem move_transfers_ownership_witness:
  "handle \<lparr>handle = Some 7\<rparr> = Some 7
   \<and> timer_id (fst (Win32Timer_construct 3 1 100
        \<lparr>closed_handles = [], set_timers = [], killed_timers = []\<rparr>)) = Some 1
   \<and> closed_handles
       (Win32Thread_destroy (snd (Win32Thread_move \<lparr>handle = Some 7\<rparr>))
         (Win32Thread_destroy (fst (Win32Thread_move \<lparr>handle = Some 7\<rparr>))
           \<lparr>closed_handles = [], set_timers = [], killed_timers = []\<rparr>)) = [7]
   \<and> killed_timers
       (Win32Timer_destroy
         (snd (Win32Timer_move (fst (Win32Timer_construct 3 1 100
            \<lparr>closed_handles = [], set_timers = [], killed_timers = []\<rparr>))))
         (Win32Timer_destroy
           (fst (Win32Timer_move (fst (Win32Timer_construct 3 1 100
              \<lparr>closed_handles = [], set_timers = [], killed_timers = []\<rparr>))))
           \<lparr>closed_handles = [], set_timers = [], killed_timers = []\<rparr>)) = [(3, 1)]"
proof -
  let ?os = "\<lparr>closed_handles = [], set_timers = [], killed_timers = []\<rparr>"
  let ?m = "fst (Win32Timer_construct 3 1 100 ?os)"
  have t: "handle \<lparr>handle = Some 7\<rparr> = Some 7"
    by simp
  have m: "timer_id ?m = Some 1"
    by (simp add: Win32Timer_construct_def)
  note th = move_transfers_ownership [OF t m, of ?os]
  from th have "Win32Thread_destroy (snd (Win32Thread_move \<lparr>handle = Some 7\<rparr>))
      (Win32Thread_destroy (fst (Win32Thread_move \<lparr>handle = Some 7\<rparr>)) ?os) =
      ?os\<lparr>closed_handles := closed_handles ?os @ [7]\<rparr>"
    by blast
  then have a: "closed_handles (Win32Thread_destroy (snd (Win32Thread_move \<lparr>handle = Some 7\<rparr>))
      (Win32Thread_destroy (fst (Win32Thread_move \<lparr>handle = Some 7\<rparr>)) ?os)) = [7]"
    by simp
  from th have "Win32Timer_destroy (snd (Win32Timer_move ?m))
      (Win32Timer_destroy (fst (Win32Timer_move ?m)) ?os) =
      ?os\<lparr>killed_timers := killed_timers ?os @ [(window_handle ?m, 1)]\<rparr>"
    by blast
  then have b: "killed_timers (Win32Timer_destroy (snd (Win32Timer_move ?m))
      (Win32Timer_destroy (fst (Win32Timer_move ?m)) ?os)) = [(3, 1)]"
    by (simp add: Win32Timer_construct_def)
  from t m a b show ?thesis
    by blast
qed

end
